theory Spec2Isabelle
  imports Complex_Main "HOL-Library.AList" "HOL-Library.Word"
begin

section \<open>Python values, dictionaries and exceptions\<close>

text \<open>
  The coordinator of \<^verbatim>\<open>custom_components/goodwe/coordinator.py\<close> stores sensor readings of
  type \<^verbatim>\<open>Any\<close>. The code looks at a reading in two ways only: \<^verbatim>\<open>val is not None\<close> and the
  truth value of \<^verbatim>\<open>val\<close>. The readings modelled are \<^verbatim>\<open>None\<close>, booleans, integers, floats
  (as reals: zero is falsy, every other number truthy) and strings.
\<close>

datatype pyval = PNone | PBool bool | PInt int | PFloat real | PStr string

fun truthy :: "pyval \<Rightarrow> bool" where
  "truthy PNone = False"
| "truthy (PBool b) = b"
| "truthy (PInt i) = (i \<noteq> 0)"
| "truthy (PFloat r) = (r \<noteq> 0)"
| "truthy (PStr s) = (s \<noteq> [])"

text \<open>
  A \<^verbatim>\<open>dict[str, Any]\<close> is an association list in insertion order with distinct keys.
  \<^verbatim>\<open>d.get(k)\<close> answers \<^verbatim>\<open>None\<close> for a missing key, \<^verbatim>\<open>d[k] = v\<close> is \<^const>\<open>AList.update\<close>
  (replace in place, or append), and a dict is truthy when it is not empty.
\<close>

type_synonym snapshot = "(string \<times> pyval) list"

definition dict_get :: "snapshot \<Rightarrow> string \<Rightarrow> pyval" where
  "dict_get d k = (case map_of d k of None \<Rightarrow> PNone | Some v \<Rightarrow> v)"

definition dict_set :: "snapshot \<Rightarrow> string \<Rightarrow> pyval \<Rightarrow> snapshot" where
  "dict_set d k v = AList.update k v d"

text \<open>
  Exceptions. \<^verbatim>\<open>RequestFailedException\<close> is a subclass of \<^verbatim>\<open>InverterError\<close> and carries
  \<^verbatim>\<open>consecutive_failures_count\<close>; \<open>InverterError\<close> below stands for every other instance of
  that class. \<^verbatim>\<open>UpdateFailed(ex)\<close> carries the error it was raised from.
  \<open>AttributeError\<close> and \<open>TypeError\<close> are what Python raises for \<^verbatim>\<open>None.get(k)\<close> and
  \<^verbatim>\<open>None[k] = v\<close>.
\<close>

datatype exn =
    RequestFailedException int
  | InverterError
  | UpdateFailed exn
  | CancelledError
  | AttributeError
  | TypeError
  | OtherException string

fun isinstance_InverterError :: "exn \<Rightarrow> bool" where
  "isinstance_InverterError (RequestFailedException n) = True"
| "isinstance_InverterError InverterError = True"
| "isinstance_InverterError ex = False"

section \<open>GoodweUpdateCoordinator\<close>

text \<open>
  The fields of the class: \<^verbatim>\<open>self.data\<close> (owned by the base class
  \<^verbatim>\<open>DataUpdateCoordinator\<close>, \<^verbatim>\<open>None\<close> until a cycle has stored a result),
  \<^verbatim>\<open>self._last_data\<close> and \<^verbatim>\<open>self._polled_entities\<close>. Entities are keys of a dict, compared
  by identity: the type \<open>'e\<close> is the type of entity identities.

  When \<^verbatim>\<open>self.data\<close> and \<^verbatim>\<open>self._last_data\<close> are the same dict object their values are
  equal, and the only in-place mutation, \<^verbatim>\<open>reset_sensor\<close>, writes the same key and value
  to both; so the values of the two fields are tracked, not their addresses.
\<close>

record 'e coordinator =
  data :: "snapshot option"
  last_data :: snapshot
  polled_entities :: "('e \<times> int) list"

text \<open>\<^verbatim>\<open>__init__\<close>: \<^verbatim>\<open>self._last_data = {}\<close>, \<^verbatim>\<open>self._polled_entities = {}\<close>, no data yet.\<close>

definition init :: "'e coordinator" where
  "init = \<lparr>data = None, last_data = [], polled_entities = []\<rparr>"

text \<open>
  What one call of \<^verbatim>\<open>_async_update_data\<close> does to the outside world, in order: the
  \<^verbatim>\<open>entity.async_update()\<close> calls, the \<^verbatim>\<open>read_runtime_data()\<close> call and the debug log lines.
\<close>

datatype 'e event =
    Async_Update 'e
  | Read_Runtime_Data
  | Debug_Failed_To_Update 'e
  | Debug_No_Response int
  | Debug_Not_Responding int

text \<open>
  \<^verbatim>\<open>_update_polled_entities\<close>: the loop over \<^verbatim>\<open>list(self._polled_entities.items())\<close>. The
  argument \<open>async_update\<close> says how each entity's \<^verbatim>\<open>async_update()\<close> ends in this cycle:
  \<open>None\<close> when it returns, \<open>Some ex\<close> when it raises \<open>ex\<close>. Only \<^verbatim>\<open>InverterError\<close> is
  caught; any other exception leaves the loop and the method.
\<close>

fun update_polled_items ::
  "('e \<Rightarrow> exn option) \<Rightarrow> ('e \<times> int) list \<Rightarrow> exn option \<times> 'e event list" where
  "update_polled_items async_update [] = (None, [])"
| "update_polled_items async_update ((entity, interval) # items) =
     (if interval \<noteq> 0 then
        (case async_update entity of
           None \<Rightarrow>
             (case update_polled_items async_update items of
                (r, tr) \<Rightarrow> (r, Async_Update entity # tr))
         | Some ex \<Rightarrow>
             if isinstance_InverterError ex then
               (case update_polled_items async_update items of
                  (r, tr) \<Rightarrow> (r, Async_Update entity # Debug_Failed_To_Update entity # tr))
             else (Some ex, [Async_Update entity]))
      else update_polled_items async_update items)"

definition update_polled_entities ::
  "('e \<Rightarrow> exn option) \<Rightarrow> ('e, 'z) coordinator_scheme \<Rightarrow> exn option \<times> 'e event list" where
  "update_polled_entities async_update self =
     update_polled_items async_update (polled_entities self)"

text \<open>
  The \<^verbatim>\<open>try\<close> block of \<^verbatim>\<open>_async_update_data\<close> after the rotation: \<open>read_runtime_data\<close> is
  how \<^verbatim>\<open>await self.inverter.read_runtime_data()\<close> ends (\<open>Inr\<close> the dict it returns, \<open>Inl\<close>
  the exception it raises), \<open>last_known\<close> is \<^verbatim>\<open>self._last_data\<close>. The clauses follow the order of
  the \<^verbatim>\<open>except\<close> clauses.
\<close>

fun read_or_last_data ::
  "exn + snapshot \<Rightarrow> snapshot \<Rightarrow> (exn + snapshot) \<times> 'e event list" where
  "read_or_last_data (Inr result) last_known = (Inr result, [Read_Runtime_Data])"
| "read_or_last_data (Inl (RequestFailedException n)) last_known =
     (if n < 3 then (Inr last_known, [Read_Runtime_Data, Debug_No_Response n])
      else (Inl (UpdateFailed (RequestFailedException n)),
            [Read_Runtime_Data, Debug_Not_Responding n]))"
| "read_or_last_data (Inl ex) last_known =
     (if isinstance_InverterError ex then (Inl (UpdateFailed ex), [Read_Runtime_Data])
      else (Inl ex, [Read_Runtime_Data]))"

text \<open>
  \<^verbatim>\<open>_async_update_data\<close>: the secondary entities first; then
  \<^verbatim>\<open>self._last_data = self.data if self.data else {}\<close>; then the read.
  The result is what the method returns or raises, the coordinator after the call, and
  the events in order.
\<close>

definition rotate_last_data :: "('e, 'z) coordinator_scheme \<Rightarrow> ('e, 'z) coordinator_scheme" where
  "rotate_last_data self =
     self\<lparr>last_data := (case data self of
                          None \<Rightarrow> []
                        | Some d \<Rightarrow> if d \<noteq> [] then d else [])\<rparr>"

definition async_update_data ::
  "('e \<Rightarrow> exn option) \<Rightarrow> exn + snapshot \<Rightarrow> ('e, 'z) coordinator_scheme \<Rightarrow>
     (exn + snapshot) \<times> ('e, 'z) coordinator_scheme \<times> 'e event list" where
  "async_update_data async_update read_runtime_data self =
     (case update_polled_entities async_update self of
        (Some ex, tr) \<Rightarrow> (Inl ex, self, tr)
      | (None, tr) \<Rightarrow>
          (let self1 = rotate_last_data self in
           case read_or_last_data read_runtime_data (last_data self1) of
             (r, tr') \<Rightarrow> (r, self1, tr @ tr')))"

text \<open>
  Modelled from the spec: the caller of \<^verbatim>\<open>_async_update_data\<close>, the refresh of the base
  class \<^verbatim>\<open>DataUpdateCoordinator\<close>, which belongs to the host framework. By section 4.1,
  step 4 ("the returned mapping becomes the new current snapshot") it stores a returned
  dict in \<^verbatim>\<open>self.data\<close>; when the method raises, \<^verbatim>\<open>self.data\<close> stays as it is.
\<close>

definition refresh ::
  "('e \<Rightarrow> exn option) \<Rightarrow> exn + snapshot \<Rightarrow> ('e, 'z) coordinator_scheme \<Rightarrow>
     (exn + snapshot) \<times> ('e, 'z) coordinator_scheme \<times> 'e event list" where
  "refresh async_update read_runtime_data self =
     (case async_update_data async_update read_runtime_data self of
        (Inr result, self1, tr) \<Rightarrow> (Inr result, self1\<lparr>data := Some result\<rparr>, tr)
      | (Inl ex, self1, tr) \<Rightarrow> (Inl ex, self1, tr))"

text \<open>\<^verbatim>\<open>sensor_value\<close>, \<^verbatim>\<open>total_sensor_value\<close>: \<^verbatim>\<open>self.data.get(sensor)\<close> raises when
  \<^verbatim>\<open>self.data\<close> is \<^verbatim>\<open>None\<close>.\<close>

definition sensor_value :: "string \<Rightarrow> ('e, 'z) coordinator_scheme \<Rightarrow> exn + pyval" where
  "sensor_value sensor self =
     (case data self of
        None \<Rightarrow> Inl AttributeError
      | Some d \<Rightarrow>
          (let val = dict_get d sensor in
           Inr (if val \<noteq> PNone then val else dict_get (last_data self) sensor)))"

definition total_sensor_value :: "string \<Rightarrow> ('e, 'z) coordinator_scheme \<Rightarrow> exn + pyval" where
  "total_sensor_value sensor self =
     (case data self of
        None \<Rightarrow> Inl AttributeError
      | Some d \<Rightarrow>
          (let val = dict_get d sensor in
           Inr (if truthy val then val else dict_get (last_data self) sensor)))"

text \<open>
  \<^verbatim>\<open>reset_sensor\<close>: \<^verbatim>\<open>self._last_data[sensor] = 0\<close> runs first, then
  \<^verbatim>\<open>self.data[sensor] = 0\<close>, which raises when \<^verbatim>\<open>self.data\<close> is \<^verbatim>\<open>None\<close>.
\<close>

definition reset_sensor ::
  "string \<Rightarrow> ('e, 'z) coordinator_scheme \<Rightarrow> (exn + unit) \<times> ('e, 'z) coordinator_scheme" where
  "reset_sensor sensor self =
     (let self1 = self\<lparr>last_data := dict_set (last_data self) sensor (PInt 0)\<rparr> in
      case data self1 of
        None \<Rightarrow> (Inl TypeError, self1)
      | Some d \<Rightarrow> (Inr (), self1\<lparr>data := Some (dict_set d sensor (PInt 0))\<rparr>))"

text \<open>
  \<^verbatim>\<open>entity_state_polling\<close>: the interval is \<open>None\<close> when the caller passes \<^verbatim>\<open>None\<close>;
  \<^verbatim>\<open>if interval:\<close> is false for \<^verbatim>\<open>None\<close> and for \<^verbatim>\<open>0\<close>. \<^verbatim>\<open>pop(entity, None)\<close> removes the
  key when it is there and does nothing otherwise.
\<close>

fun entity_state_polling ::
  "'e \<Rightarrow> int option \<Rightarrow> ('e, 'z) coordinator_scheme \<Rightarrow> ('e, 'z) coordinator_scheme" where
  "entity_state_polling entity None self =
     self\<lparr>polled_entities := AList.delete entity (polled_entities self)\<rparr>"
| "entity_state_polling entity (Some interval) self =
     (if interval \<noteq> 0 then
        self\<lparr>polled_entities := AList.update entity interval (polled_entities self)\<rparr>
      else self\<lparr>polled_entities := AList.delete entity (polled_entities self)\<rparr>)"

text \<open>
  A run of refresh cycles, one pair per cycle: how the entities' updates end and how the
  read ends in that cycle. It answers the coordinator after the last cycle, the result of
  every cycle and all events in order.
\<close>

fun cycles ::
  "(('e \<Rightarrow> exn option) \<times> (exn + snapshot)) list \<Rightarrow> ('e, 'z) coordinator_scheme \<Rightarrow>
     ('e, 'z) coordinator_scheme \<times> (exn + snapshot) list \<times> 'e event list" where
  "cycles [] self = (self, [], [])"
| "cycles ((async_update, read_runtime_data) # rest) self =
     (case refresh async_update read_runtime_data self of
        (r, self1, tr) \<Rightarrow>
          (case cycles rest self1 of
             (self2, rs, tr') \<Rightarrow> (self2, r # rs, tr @ tr')))"

section \<open>GoodweUpdateCoordinatorWithWakeUp\<close>

text \<open>
  The subclass adds \<^verbatim>\<open>_host\<close> and \<^verbatim>\<open>_cancel_wakeup_interval\<close>. The latter is \<^verbatim>\<open>None\<close> or
  the cancel callback that \<^verbatim>\<open>async_track_time_interval\<close> returned; a callback is
  identified by the number of the timer it cancels.
\<close>

record 'e coordinator_with_wakeup = "'e coordinator" +
  host :: string
  cancel_wakeup_interval :: "nat option"

text \<open>
  The request of \<^verbatim>\<open>_send_wakeup_packet\<close>: the bytes of the \<^verbatim>\<open>ProtocolCommand\<close> and the
  arguments of \<^verbatim>\<open>UdpInverterProtocol\<close>. Strings of HOL are byte strings, and the
  literal is ASCII, so \<^verbatim>\<open>.encode("utf-8")\<close> maps each character to its code.
  \<open>retries\<close> is the retry count the call passes, \<open>None\<close> when it passes none.
\<close>

definition encode_utf8 :: "string \<Rightarrow> 8 word list" where
  "encode_utf8 s = map of_char s"

record udp_request =
  payload :: "8 word list"
  protocol_host :: string
  port :: nat
  comm_addr :: nat
  timeout :: nat
  retries :: "nat option"

text \<open>
  An argument that a call does not pass takes the default of the declaration.
  \<^verbatim>\<open>UdpInverterProtocol\<close> is declared in the goodwe library, not in this repository, so
  the default of its \<^verbatim>\<open>retries\<close> parameter is the argument \<open>default_retries\<close> here (the
  library declares \<^verbatim>\<open>retries: int = 3\<close>). A request is sent once and sent again up to
  that many times while no response arrives.
\<close>

definition effective_retries :: "nat \<Rightarrow> udp_request \<Rightarrow> nat" where
  "effective_retries default_retries rq =
     (case retries rq of None \<Rightarrow> default_retries | Some r \<Rightarrow> r)"

text \<open>How \<^verbatim>\<open>await command.execute(...)\<close> ends: it returns a response or \<^verbatim>\<open>None\<close>, or raises.\<close>

datatype execute_outcome = Returned "8 word list option" | Raised exn

text \<open>
  Calling an \<^verbatim>\<open>async def\<close> function makes a coroutine object and runs nothing of its body;
  the body runs when the object is awaited or scheduled as a task.
\<close>

datatype coroutine = Send_Wakeup_Packet_Coroutine | Base_Async_Shutdown_Coroutine

datatype wakeup_event =
    Track_Time_Interval nat string
  | Cancel_Interval nat
  | Execute udp_request
  | Debug_Sending
  | Debug_Received "8 word list"
  | Debug_No_Response_Received
  | Debug_No_Valid_Response
  | Super_Async_Shutdown
  | Base_Shutdown_Ran

fun is_Execute :: "wakeup_event \<Rightarrow> bool" where
  "is_Execute (Execute rq) = True"
| "is_Execute ev = False"

text \<open>
  \<^verbatim>\<open>_send_wakeup_packet\<close>, awaited: only \<^verbatim>\<open>asyncio.CancelledError\<close> is caught.
\<close>

definition send_wakeup_packet ::
  "execute_outcome \<Rightarrow> ('e, 'z) coordinator_with_wakeup_scheme \<Rightarrow>
     (exn + unit) \<times> wakeup_event list" where
  "send_wakeup_packet outcome self =
     (let command = encode_utf8 ''WIFIKIT-214028-READ'';
          request = \<lparr>payload = command, protocol_host = host self, port = 48899,
                     comm_addr = 1, timeout = 1, retries = None\<rparr>;
          tr = [Debug_Sending, Execute request]
      in case outcome of
           Returned (Some raw_data) \<Rightarrow> (Inr (), tr @ [Debug_Received raw_data])
         | Returned None \<Rightarrow> (Inr (), tr @ [Debug_No_Response_Received])
         | Raised ex \<Rightarrow>
             if ex = CancelledError then (Inr (), tr @ [Debug_No_Valid_Response])
             else (Inl ex, tr))"

text \<open>
  Awaiting a coroutine object runs the body of its function:
  \<^verbatim>\<open>await self._send_wakeup_packet()\<close> runs \<^verbatim>\<open>_send_wakeup_packet\<close>, and awaiting the
  coroutine object of the base class's \<^verbatim>\<open>async_shutdown\<close> runs the base shutdown, the
  event \<open>Base_Shutdown_Ran\<close>. A coroutine object that nothing awaits runs nothing.
\<close>

fun await_coroutine ::
  "coroutine \<Rightarrow> execute_outcome \<Rightarrow> ('e, 'z) coordinator_with_wakeup_scheme \<Rightarrow>
     (exn + unit) \<times> wakeup_event list" where
  "await_coroutine Send_Wakeup_Packet_Coroutine outcome self = send_wakeup_packet outcome self"
| "await_coroutine Base_Async_Shutdown_Coroutine outcome self = (Inr (), [Base_Shutdown_Ran])"

text \<open>
  \<^verbatim>\<open>_start_wakeup_interval\<close>: \<open>handle\<close> is the callback that
  \<^verbatim>\<open>async_track_time_interval(..., interval=timedelta(minutes=10), name=...)\<close> returns; the
  event carries the minutes and the name. The last statement,
  \<^verbatim>\<open>self._send_wakeup_packet()\<close>, calls the \<^verbatim>\<open>async def\<close> method and drops the coroutine
  object: the third component lists the coroutine objects made and never awaited.
\<close>

definition start_wakeup_interval ::
  "nat \<Rightarrow> ('e, 'z) coordinator_with_wakeup_scheme \<Rightarrow>
     ('e, 'z) coordinator_with_wakeup_scheme \<times> wakeup_event list \<times> coroutine list" where
  "start_wakeup_interval handle self =
     (self\<lparr>cancel_wakeup_interval := Some handle\<rparr>,
      [Track_Time_Interval 10 ''goodwe_inverter_send_wakeup_packet''],
      [Send_Wakeup_Packet_Coroutine])"

text \<open>
  \<^verbatim>\<open>async_shutdown\<close>: the cancel callback is called and forgotten when there is one; then
  \<^verbatim>\<open>return super().async_shutdown()\<close> calls the base class's \<^verbatim>\<open>async def\<close> method (the
  event \<open>Super_Async_Shutdown\<close>) and returns the coroutine object it makes, the third
  component, without awaiting it.
\<close>

definition async_shutdown ::
  "('e, 'z) coordinator_with_wakeup_scheme \<Rightarrow>
     ('e, 'z) coordinator_with_wakeup_scheme \<times> wakeup_event list \<times> coroutine" where
  "async_shutdown self =
     (case cancel_wakeup_interval self of
        Some handle \<Rightarrow>
          (self\<lparr>cancel_wakeup_interval := None\<rparr>,
           [Cancel_Interval handle, Super_Async_Shutdown],
           Base_Async_Shutdown_Coroutine)
      | None \<Rightarrow> (self, [Super_Async_Shutdown], Base_Async_Shutdown_Coroutine))"

subsection \<open>The host\<close>

text \<open>
  Modelled from the spec: the host scheduler of section 6, as far as the subclass uses it:
  \<^verbatim>\<open>__init__\<close> registers a one-time listener for the started event, which calls
  \<^verbatim>\<open>_start_wakeup_interval\<close>; a repeating timer calls its action, which awaits
  \<^verbatim>\<open>_send_wakeup_packet\<close>, as long as it has not been cancelled; a cancel callback removes
  its timer. The host awaits \<^verbatim>\<open>async_shutdown()\<close> and does nothing with the value it
  returns. \<open>listener\<close> says whether the one-time listener is still registered,
  \<open>timers\<close> lists the running timers, \<open>next_timer\<close> numbers the next one.
\<close>

record 'e system =
  coord :: "'e coordinator_with_wakeup"
  listener :: bool
  timers :: "nat list"
  next_timer :: nat

definition system_init :: "string \<Rightarrow> 'e system" where
  "system_init h =
     \<lparr>coord = \<lparr>data = None, last_data = [], polled_entities = [],
               host = h, cancel_wakeup_interval = None\<rparr>,
      listener = True, timers = [], next_timer = 0\<rparr>"

datatype host_event =
    Homeassistant_Started
  | Time_Interval_Elapsed nat execute_outcome
  | Shutdown

fun cancelled :: "wakeup_event list \<Rightarrow> nat list" where
  "cancelled [] = []"
| "cancelled (Cancel_Interval t # evs) = t # cancelled evs"
| "cancelled (ev # evs) = cancelled evs"

fun step :: "host_event \<Rightarrow> 'e system \<Rightarrow> 'e system \<times> wakeup_event list" where
  "step Homeassistant_Started s =
     (if listener s then
        (case start_wakeup_interval (next_timer s) (coord s) of
           (c, tr, dropped) \<Rightarrow>
             (s\<lparr>coord := c, listener := False, timers := timers s @ [next_timer s],
                next_timer := Suc (next_timer s)\<rparr>, tr))
      else (s, []))"
| "step (Time_Interval_Elapsed t outcome) s =
     (if t \<in> set (timers s)
      then (s, snd (await_coroutine Send_Wakeup_Packet_Coroutine outcome (coord s)))
      else (s, []))"
| "step Shutdown s =
     (case async_shutdown (coord s) of
        (c, tr, base) \<Rightarrow>
          (s\<lparr>coord := c, timers := filter (\<lambda>t. t \<notin> set (cancelled tr)) (timers s)\<rparr>, tr))"

fun run :: "host_event list \<Rightarrow> 'e system \<Rightarrow> 'e system \<times> wakeup_event list" where
  "run [] s = (s, [])"
| "run (ev # evs) s =
     (case step ev s of
        (s1, tr) \<Rightarrow> (case run evs s1 of (s2, tr') \<Rightarrow> (s2, tr @ tr')))"

section \<open>The refresh cycle\<close>

lemma update_polled_items_no_read:
  "Read_Runtime_Data \<notin> set (snd (update_polled_items async_update items))"
  by (induction async_update items rule: update_polled_items.induct)
     (auto split: option.splits prod.splits)

lemma read_or_last_data_reads:
  "read_or_last_data r l = (x, tr) \<Longrightarrow> Read_Runtime_Data \<in> set tr"
  by (induction r l rule: read_or_last_data.induct) (auto split: if_splits)

text \<open>The read is reached exactly when no secondary update left the loop by an exception.\<close>

lemma read_reached_iff:
  "Read_Runtime_Data \<in> set (snd (snd (async_update_data async_update read_runtime_data self)))
     \<longleftrightarrow> fst (update_polled_entities async_update self) = None"
  using update_polled_items_no_read [of async_update "polled_entities self"]
  by (auto simp: async_update_data_def update_polled_entities_def Let_def
           split: prod.splits option.splits dest: read_or_last_data_reads)

lemma last_data_rotate:
  "last_data (rotate_last_data self) = (case data self of None \<Rightarrow> [] | Some d \<Rightarrow> d)"
  by (simp add: rotate_last_data_def split: option.splits)

lemma data_rotate: "data (rotate_last_data self) = data self"
  by (simp add: rotate_last_data_def)

lemma refresh_result: "fst (refresh u r s) = fst (async_update_data u r s)"
  by (simp add: refresh_def split: prod.splits sum.splits)

text \<open>
  C1. In a cycle whose primary read is made and fails with
  \<^verbatim>\<open>RequestFailedException\<close> of a count below 3, \<^verbatim>\<open>_async_update_data\<close> (and so the
  refresh) returns normally, and what it returns is the snapshot that was \<^verbatim>\<open>self.data\<close>
  when the cycle began, the empty dict when \<^verbatim>\<open>self.data\<close> was unset.
\<close>

theorem transient_failure_returns_previous_snapshot:
  assumes "read_runtime_data = Inl (RequestFailedException n)" and "n < 3"
    and "Read_Runtime_Data
           \<in> set (snd (snd (async_update_data async_update read_runtime_data self)))"
  shows "fst (async_update_data async_update read_runtime_data self)
           = Inr (case data self of None \<Rightarrow> [] | Some d \<Rightarrow> d)
       \<and> fst (refresh async_update read_runtime_data self)
           = Inr (case data self of None \<Rightarrow> [] | Some d \<Rightarrow> d)"
proof -
  from assms(3) have "fst (update_polled_entities async_update self) = None"
    by (simp only: read_reached_iff)
  then obtain tr where "update_polled_entities async_update self = (None, tr)"
    by (cases "update_polled_entities async_update self") simp
  with assms(1,2) have "fst (async_update_data async_update read_runtime_data self)
           = Inr (last_data (rotate_last_data self))"
    by (simp add: async_update_data_def Let_def)
  then show ?thesis by (simp add: last_data_rotate refresh_result)
qed

theorem transient_failure_returns_previous_snapshot_witness:
  "fst (refresh (\<lambda>e::nat. if e = 7 then Some InverterError else None)
          (Inl (RequestFailedException 1))
          \<lparr>data = Some [(''power'', PInt 500)], last_data = [], polled_entities = [(7, 30)]\<rparr>)
     = Inr [(''power'', PInt 500)]"
  using transient_failure_returns_previous_snapshot
    [where read_runtime_data = "Inl (RequestFailedException 1)" and n = 1
       and self = "\<lparr>data = Some [(''power'', PInt 500)], last_data = [],
                     polled_entities = [(7::nat, 30)]\<rparr>"
       and async_update = "\<lambda>e::nat. if e = 7 then Some InverterError else None"]
  by (simp add: async_update_data_def update_polled_entities_def rotate_last_data_def)

text \<open>
  C2. In a cycle whose primary read is made and fails with \<^verbatim>\<open>RequestFailedException\<close> of
  a count of 3 or more, or with any other \<^verbatim>\<open>InverterError\<close>, the method raises
  \<^verbatim>\<open>UpdateFailed\<close> carrying that error, and the coordinator is left as the rotation set it:
  \<^verbatim>\<open>self.data\<close> as before the cycle, \<^verbatim>\<open>self._last_data\<close> the snapshot \<^verbatim>\<open>self.data\<close> held.
\<close>

theorem sustained_failure_raises_update_failed:
  assumes "read_runtime_data = Inl ex"
    and "(\<exists>n. ex = RequestFailedException n \<and> 3 \<le> n) \<or> ex = InverterError"
    and "Read_Runtime_Data
           \<in> set (snd (snd (async_update_data async_update read_runtime_data self)))"
  shows "fst (async_update_data async_update read_runtime_data self) = Inl (UpdateFailed ex)
       \<and> fst (refresh async_update read_runtime_data self) = Inl (UpdateFailed ex)
       \<and> fst (snd (async_update_data async_update read_runtime_data self))
           = rotate_last_data self
       \<and> fst (snd (refresh async_update read_runtime_data self)) = rotate_last_data self
       \<and> data (rotate_last_data self) = data self
       \<and> last_data (rotate_last_data self) = (case data self of None \<Rightarrow> [] | Some d \<Rightarrow> d)"
proof -
  from assms(3) have "fst (update_polled_entities async_update self) = None"
    by (simp only: read_reached_iff)
  then obtain tr where tr: "update_polled_entities async_update self = (None, tr)"
    by (cases "update_polled_entities async_update self") simp
  from assms(2)
  have r: "fst (read_or_last_data (Inl ex) (last_data (rotate_last_data self))
                 :: (exn + snapshot) \<times> 'a event list) = Inl (UpdateFailed ex)"
    by auto
  from tr r assms(1)
  have a: "fst (async_update_data async_update read_runtime_data self) = Inl (UpdateFailed ex)"
    and b: "fst (snd (async_update_data async_update read_runtime_data self))
              = rotate_last_data self"
    by (auto simp: async_update_data_def Let_def split: prod.splits)
  from a b have c: "fst (snd (refresh async_update read_runtime_data self))
                      = rotate_last_data self"
    by (auto simp: refresh_def split: prod.splits sum.splits)
  from a b c show ?thesis by (simp add: last_data_rotate data_rotate refresh_result)
qed

theorem sustained_failure_raises_update_failed_witness:
  "refresh (\<lambda>e::nat. None) (Inl (RequestFailedException 3))
      \<lparr>data = Some [(''power'', PInt 500)], last_data = [(''power'', PInt 400)],
       polled_entities = []\<rparr>
     = (Inl (UpdateFailed (RequestFailedException 3)),
        \<lparr>data = Some [(''power'', PInt 500)], last_data = [(''power'', PInt 500)],
         polled_entities = []\<rparr>,
        [Read_Runtime_Data, Debug_Not_Responding 3])
   \<and> fst (refresh (\<lambda>e::nat. None) (Inl InverterError)
            \<lparr>data = None, last_data = [], polled_entities = [(1::nat, 5)]\<rparr>)
     = Inl (UpdateFailed InverterError)"
  using sustained_failure_raises_update_failed
    [where read_runtime_data = "Inl (RequestFailedException 3)"
       and ex = "RequestFailedException 3"
       and self = "\<lparr>data = Some [(''power'', PInt 500)], last_data = [(''power'', PInt 400)],
                     polled_entities = []\<rparr>"
       and async_update = "\<lambda>e::nat. None"]
    sustained_failure_raises_update_failed
    [where read_runtime_data = "Inl InverterError" and ex = InverterError
       and self = "\<lparr>data = None, last_data = [], polled_entities = [(1::nat, 5)]\<rparr>"
       and async_update = "\<lambda>e::nat. None"]
  by (simp add: async_update_data_def update_polled_entities_def rotate_last_data_def
                refresh_def)


section \<open>Lookups and reset\<close>

lemma dict_get_set: "dict_get (dict_set d k v) k' = (if k' = k then v else dict_get d k')"
  by (simp add: dict_get_def dict_set_def update_conv')

lemma map_of_dict_set: "map_of (dict_set d k v) = (map_of d)(k \<mapsto> v)"
  by (simp add: dict_set_def update_conv')

lemma refresh_failed_read_keeps_data:
  assumes "isl rd" and "data s = Some d"
  shows "data (fst (snd (refresh u rd s))) = Some d"
proof -
  from assms(1) obtain ex where rd: "rd = Inl ex" by (cases rd) auto
  show ?thesis
  proof (cases "update_polled_entities u s")
    case (Pair r tr)
    show ?thesis
    proof (cases r)
      case (Some e)
      with Pair assms(2) show ?thesis
        by (simp add: refresh_def async_update_data_def)
    next
      case None
      with Pair rd assms(2) show ?thesis
        by (cases ex)
           (auto simp: refresh_def async_update_data_def Let_def rotate_last_data_def
                 split: prod.splits sum.splits if_splits)
    qed
  qed
qed

lemma cycles_Cons_state:
  "fst (cycles ((u, rd) # rest) s) = fst (cycles rest (fst (snd (refresh u rd s))))"
  by (simp split: prod.splits)

lemma cycles_failed_reads_keep_data:
  "\<forall>env \<in> set envs. isl (snd env) \<Longrightarrow> data s = Some d
     \<Longrightarrow> data (fst (cycles envs s)) = Some d"
proof (induction envs arbitrary: s)
  case Nil
  then show ?case by simp
next
  case (Cons env envs)
  obtain u rd where env: "env = (u, rd)" by (cases env)
  from Cons.prems env have "isl rd" by simp
  from refresh_failed_read_keeps_data [OF this Cons.prems(2), of u]
  have "data (fst (snd (refresh u rd s))) = Some d" .
  with Cons.IH [of "fst (snd (refresh u rd s))"] Cons.prems(1)
  show ?case unfolding env cycles_Cons_state by simp
qed

text \<open>
  C3, amended. Whenever \<^verbatim>\<open>self.data\<close> is set: \<^verbatim>\<open>sensor_value(id)\<close> answers the current
  value of \<open>id\<close> when it is present and not \<^verbatim>\<open>None\<close>, otherwise the last known value of
  \<open>id\<close>, otherwise \<^verbatim>\<open>None\<close>; so it does not answer \<^verbatim>\<open>None\<close> when either snapshot holds a
  value other than \<^verbatim>\<open>None\<close> for \<open>id\<close>. \<^verbatim>\<open>total_sensor_value(id)\<close> answers the current
  value when it is truthy, and falls back to the last known value (or \<^verbatim>\<open>None\<close>) when the
  current value is missing or falsy.
\<close>

theorem sensor_value_lookup:
  assumes "data self = Some d"
  shows "(\<forall>v. map_of d sensor = Some v \<and> v \<noteq> PNone \<longrightarrow> sensor_value sensor self = Inr v)
       \<and> (map_of d sensor = None \<or> map_of d sensor = Some PNone \<longrightarrow>
            sensor_value sensor self
              = Inr (case map_of (last_data self) sensor of None \<Rightarrow> PNone | Some w \<Rightarrow> w))
       \<and> ((\<exists>v. map_of d sensor = Some v \<and> v \<noteq> PNone)
            \<or> (\<exists>w. map_of (last_data self) sensor = Some w \<and> w \<noteq> PNone) \<longrightarrow>
            sensor_value sensor self \<noteq> Inr PNone)
       \<and> (\<forall>v. map_of d sensor = Some v \<and> truthy v \<longrightarrow> total_sensor_value sensor self = Inr v)
       \<and> (map_of d sensor = None \<or> (\<exists>v. map_of d sensor = Some v \<and> \<not> truthy v) \<longrightarrow>
            total_sensor_value sensor self
              = Inr (case map_of (last_data self) sensor of None \<Rightarrow> PNone | Some w \<Rightarrow> w))"
  using assms
  by (auto simp: sensor_value_def total_sensor_value_def dict_get_def Let_def
           split: option.splits)

theorem sensor_value_lookup_witness:
  "sensor_value ''e_total'' \<lparr>data = Some [(''e_total'', PInt 0), (''ppv'', PNone)],
       last_data = [(''e_total'', PInt 1234), (''ppv'', PInt 500)],
       polled_entities = [] :: (nat \<times> int) list\<rparr> = Inr (PInt 0)
   \<and> total_sensor_value ''e_total'' \<lparr>data = Some [(''e_total'', PInt 0), (''ppv'', PNone)],
       last_data = [(''e_total'', PInt 1234), (''ppv'', PInt 500)],
       polled_entities = [] :: (nat \<times> int) list\<rparr> = Inr (PInt 1234)
   \<and> sensor_value ''ppv'' \<lparr>data = Some [(''e_total'', PInt 0), (''ppv'', PNone)],
       last_data = [(''e_total'', PInt 1234), (''ppv'', PInt 500)],
       polled_entities = [] :: (nat \<times> int) list\<rparr> = Inr (PInt 500)"
  using sensor_value_lookup
    [where self = "\<lparr>data = Some [(''e_total'', PInt 0), (''ppv'', PNone)],
       last_data = [(''e_total'', PInt 1234), (''ppv'', PInt 500)],
       polled_entities = [] :: (nat \<times> int) list\<rparr>"
       and d = "[(''e_total'', PInt 0), (''ppv'', PNone)]" and sensor = "''e_total''"]
    sensor_value_lookup
    [where self = "\<lparr>data = Some [(''e_total'', PInt 0), (''ppv'', PNone)],
       last_data = [(''e_total'', PInt 1234), (''ppv'', PInt 500)],
       polled_entities = [] :: (nat \<times> int) list\<rparr>"
       and d = "[(''e_total'', PInt 0), (''ppv'', PNone)]" and sensor = "''ppv''"]
  by simp

text \<open>
  C3 as stated, for every state of the coordinator, fails on a coordinator that has just
  been constructed: \<^verbatim>\<open>self.data\<close> is \<^verbatim>\<open>None\<close>, and both lookups raise
  \<^verbatim>\<open>AttributeError\<close> instead of answering the last known value or \<^verbatim>\<open>None\<close>.
\<close>

theorem sensor_value_unset_counterexample:
  "data (init :: nat coordinator) = None
   \<and> sensor_value ''e_day'' (init :: nat coordinator) = Inl AttributeError
   \<and> sensor_value ''e_day'' (init :: nat coordinator)
        \<noteq> Inr (dict_get (last_data (init :: nat coordinator)) ''e_day'')
   \<and> total_sensor_value ''e_day'' (init :: nat coordinator) = Inl AttributeError
   \<and> total_sensor_value ''e_day'' (init :: nat coordinator)
        \<noteq> Inr (dict_get (last_data (init :: nat coordinator)) ''e_day'')"
  by (simp add: init_def sensor_value_def total_sensor_value_def)

text \<open>
  C8, amended. Whenever \<^verbatim>\<open>self.data\<close> is set, \<^verbatim>\<open>reset_sensor(id)\<close> returns normally and
  sets the value of \<open>id\<close> to the integer 0 in both snapshots, leaving every other key as
  it was; \<^verbatim>\<open>sensor_value(id)\<close> then answers 0, directly afterwards and after any number
  of refresh cycles in which no read succeeds.
\<close>

theorem reset_sensor_zeroes_both:
  assumes "data self = Some d"
  shows "fst (reset_sensor sensor self) = Inr ()
       \<and> (\<exists>d'. data (snd (reset_sensor sensor self)) = Some d'
              \<and> map_of d' = (map_of d)(sensor \<mapsto> PInt 0))
       \<and> map_of (last_data (snd (reset_sensor sensor self)))
           = (map_of (last_data self))(sensor \<mapsto> PInt 0)
       \<and> sensor_value sensor (snd (reset_sensor sensor self)) = Inr (PInt 0)
       \<and> (\<forall>envs. (\<forall>env \<in> set envs. isl (snd env)) \<longrightarrow>
            sensor_value sensor (fst (cycles envs (snd (reset_sensor sensor self))))
              = Inr (PInt 0))"
proof -
  let ?s = "snd (reset_sensor sensor self)"
  let ?d = "dict_set d sensor (PInt 0)"
  from assms have r: "fst (reset_sensor sensor self) = Inr ()"
    and d: "data ?s = Some ?d"
    and l: "last_data ?s = dict_set (last_data self) sensor (PInt 0)"
    by (simp_all add: reset_sensor_def Let_def)
  have g: "dict_get ?d sensor = PInt 0" by (simp add: dict_get_set)
  have v: "sensor_value sensor s' = Inr (PInt 0)" if "data s' = Some ?d"
    for s' :: "('a, 'b) coordinator_scheme"
    using that g by (simp add: sensor_value_def Let_def)
  have c: "sensor_value sensor (fst (cycles envs ?s)) = Inr (PInt 0)"
    if "\<forall>env \<in> set envs. isl (snd env)" for envs
    using cycles_failed_reads_keep_data [OF that d] by (rule v)
  from r d l v [OF d] c show ?thesis by (simp add: map_of_dict_set)
qed

theorem reset_sensor_zeroes_both_witness:
  "reset_sensor ''e_day'' \<lparr>data = Some [(''e_day'', PInt 7)], last_data = [],
       polled_entities = [] :: (nat \<times> int) list\<rparr>
     = (Inr (), \<lparr>data = Some [(''e_day'', PInt 0)], last_data = [(''e_day'', PInt 0)],
                 polled_entities = []\<rparr>)
   \<and> sensor_value ''e_day''
        (fst (cycles [(\<lambda>e. None, Inl (RequestFailedException 1)),
                      (\<lambda>e. None, Inl (RequestFailedException 4))]
           (snd (reset_sensor ''e_day'' \<lparr>data = Some [(''e_day'', PInt 7)], last_data = [],
              polled_entities = [] :: (nat \<times> int) list\<rparr>))))
     = Inr (PInt 0)"
proof -
  let ?self = "\<lparr>data = Some [(''e_day'', PInt 7)], last_data = [],
                 polled_entities = [] :: (nat \<times> int) list\<rparr>"
  let ?envs = "[(\<lambda>e::nat. None, Inl (RequestFailedException 1)),
                (\<lambda>e::nat. None, Inl (RequestFailedException 4))]
                 :: ((nat \<Rightarrow> exn option) \<times> (exn + snapshot)) list"
  have d: "data ?self = Some [(''e_day'', PInt 7)]" by simp
  have e: "\<forall>env \<in> set ?envs. isl (snd env)" by simp
  from reset_sensor_zeroes_both [OF d, of "''e_day''"]
  have "(\<forall>env \<in> set ?envs. isl (snd env)) \<longrightarrow>
          sensor_value ''e_day'' (fst (cycles ?envs (snd (reset_sensor ''e_day'' ?self))))
            = Inr (PInt 0)"
    by blast
  with e have "sensor_value ''e_day'' (fst (cycles ?envs (snd (reset_sensor ''e_day'' ?self))))
                 = Inr (PInt 0)"
    by blast
  moreover have "reset_sensor ''e_day'' ?self
     = (Inr (), \<lparr>data = Some [(''e_day'', PInt 0)], last_data = [(''e_day'', PInt 0)],
                 polled_entities = []\<rparr>)"
    by (simp add: reset_sensor_def dict_set_def)
  ultimately show ?thesis by blast
qed

text \<open>
  C8 as stated fails on a coordinator that has just been constructed:
  \<^verbatim>\<open>reset_sensor\<close> raises \<^verbatim>\<open>TypeError\<close> at \<^verbatim>\<open>self.data[sensor] = 0\<close>, the current
  snapshot stays unset, and the following \<^verbatim>\<open>sensor_value\<close> raises instead of answering 0.
\<close>

theorem reset_sensor_unset_counterexample:
  "fst (reset_sensor ''e_day'' (init :: nat coordinator)) = Inl TypeError
   \<and> data (snd (reset_sensor ''e_day'' (init :: nat coordinator))) = None
   \<and> sensor_value ''e_day'' (snd (reset_sensor ''e_day'' (init :: nat coordinator)))
       = Inl AttributeError"
  by (simp add: init_def reset_sensor_def sensor_value_def)

section \<open>Before the first completed cycle\<close>

lemma refresh_raise_keeps_data:
  "isl (fst (refresh u rd s)) \<Longrightarrow> data (fst (snd (refresh u rd s))) = data s"
  by (auto simp: refresh_def async_update_data_def Let_def rotate_last_data_def
           split: prod.splits sum.splits option.splits)

lemma refresh_return_stores:
  "fst (refresh u rd s) = Inr m \<Longrightarrow> data (fst (snd (refresh u rd s))) = Some m"
  by (auto simp: refresh_def split: prod.splits sum.splits)

lemma cycles_Cons_results:
  "fst (snd (cycles ((u, rd) # rest) s))
     = fst (refresh u rd s) # fst (snd (cycles rest (fst (snd (refresh u rd s)))))"
  by (simp split: prod.splits)

lemma cycles_Cons_events:
  "snd (snd (cycles ((u, rd) # rest) s))
     = snd (snd (refresh u rd s)) @ snd (snd (cycles rest (fst (snd (refresh u rd s)))))"
  by (simp split: prod.splits)

lemma cycles_all_raise_keep_data:
  "\<forall>r \<in> set (fst (snd (cycles envs s))). isl r \<Longrightarrow> data (fst (cycles envs s)) = data s"
proof (induction envs arbitrary: s)
  case Nil
  then show ?case by simp
next
  case (Cons env envs)
  obtain u rd where env: "env = (u, rd)" by (cases env)
  from Cons.prems have a: "isl (fst (refresh u rd s))"
    and b: "\<forall>r \<in> set (fst (snd (cycles envs (fst (snd (refresh u rd s)))))). isl r"
    unfolding env cycles_Cons_results by simp_all
  from Cons.IH [OF b] refresh_raise_keeps_data [OF a]
  show ?case unfolding env cycles_Cons_state by simp
qed

text \<open>
  C10. While \<^verbatim>\<open>self.data\<close> is unset, \<^verbatim>\<open>sensor_value\<close> and \<^verbatim>\<open>total_sensor_value\<close> raise
  \<^verbatim>\<open>AttributeError\<close> and \<^verbatim>\<open>reset_sensor\<close> raises \<^verbatim>\<open>TypeError\<close>, leaving the current
  snapshot unset. A new coordinator on which every cycle so far has raised is in that
  state. Each of the three operations returns normally exactly when \<^verbatim>\<open>self.data\<close> is
  set, and a cycle that returns a snapshot sets it.
\<close>

theorem lookups_and_reset_raise_while_unset:
  "(data self = None \<longrightarrow>
      sensor_value sensor self = Inl AttributeError
    \<and> total_sensor_value sensor self = Inl AttributeError
    \<and> fst (reset_sensor sensor self) = Inl TypeError
    \<and> data (snd (reset_sensor sensor self)) = None)
   \<and> ((\<forall>r \<in> set (fst (snd (cycles envs (init :: 'e coordinator)))). isl r) \<longrightarrow>
        data (fst (cycles envs (init :: 'e coordinator))) = None)
   \<and> ((\<exists>v. sensor_value sensor self = Inr v) \<longleftrightarrow> data self \<noteq> None)
   \<and> ((\<exists>v. total_sensor_value sensor self = Inr v) \<longleftrightarrow> data self \<noteq> None)
   \<and> (fst (reset_sensor sensor self) = Inr () \<longleftrightarrow> data self \<noteq> None)
   \<and> (fst (refresh async_update read_runtime_data self) = Inr m \<longrightarrow>
        data (fst (snd (refresh async_update read_runtime_data self))) = Some m)"
proof -
  have "data (fst (cycles envs (init :: 'e coordinator))) = None"
    if "\<forall>r \<in> set (fst (snd (cycles envs (init :: 'e coordinator)))). isl r"
    using cycles_all_raise_keep_data [OF that] by (simp add: init_def)
  moreover have "data self = None \<longrightarrow>
      sensor_value sensor self = Inl AttributeError
    \<and> total_sensor_value sensor self = Inl AttributeError
    \<and> fst (reset_sensor sensor self) = Inl TypeError
    \<and> data (snd (reset_sensor sensor self)) = None"
    by (simp add: sensor_value_def total_sensor_value_def reset_sensor_def Let_def)
  moreover have "(\<exists>v. sensor_value sensor self = Inr v) \<longleftrightarrow> data self \<noteq> None"
    by (cases "data self") (simp_all add: sensor_value_def Let_def)
  moreover have "(\<exists>v. total_sensor_value sensor self = Inr v) \<longleftrightarrow> data self \<noteq> None"
    by (cases "data self") (simp_all add: total_sensor_value_def Let_def)
  moreover have "fst (reset_sensor sensor self) = Inr () \<longleftrightarrow> data self \<noteq> None"
    by (cases "data self") (simp_all add: reset_sensor_def Let_def)
  ultimately show ?thesis using refresh_return_stores [of async_update read_runtime_data self m]
    by blast
qed

theorem lookups_and_reset_raise_while_unset_witness:
  "data (fst (cycles [(\<lambda>e. None, Inl (RequestFailedException 3)), (\<lambda>e. None, Inl InverterError)]
            (init :: nat coordinator))) = None
   \<and> sensor_value ''e_day''
        (fst (cycles [(\<lambda>e. None, Inl (RequestFailedException 3)), (\<lambda>e. None, Inl InverterError)]
            (init :: nat coordinator))) = Inl AttributeError
   \<and> fst (reset_sensor ''e_day'' (init :: nat coordinator)) = Inl TypeError
   \<and> data (fst (snd (refresh (\<lambda>e. None) (Inr [(''e_day'', PInt 3)]) (init :: nat coordinator))))
       = Some [(''e_day'', PInt 3)]"
proof -
  let ?envs = "[(\<lambda>e::nat. None, Inl (RequestFailedException 3)), (\<lambda>e::nat. None, Inl InverterError)]
                 :: ((nat \<Rightarrow> exn option) \<times> (exn + snapshot)) list"
  let ?s = "fst (cycles ?envs (init :: nat coordinator))"
  have r: "\<forall>r \<in> set (fst (snd (cycles ?envs (init :: nat coordinator)))). isl r"
    by (simp add: refresh_def async_update_data_def update_polled_entities_def init_def
                  rotate_last_data_def)
  note t = lookups_and_reset_raise_while_unset
             [where envs = ?envs and self = ?s and sensor = "''e_day''"]
  from t r have d: "data ?s = None" by blast
  with t have "sensor_value ''e_day'' ?s = Inl AttributeError" by blast
  moreover
  have i: "data (init :: nat coordinator) = None" by (simp add: init_def)
  from lookups_and_reset_raise_while_unset
         [where self = "init :: nat coordinator" and sensor = "''e_day''"] i
  have "fst (reset_sensor ''e_day'' (init :: nat coordinator)) = Inl TypeError" by blast
  moreover
  have "fst (refresh (\<lambda>e. None) (Inr [(''e_day'', PInt 3)]) (init :: nat coordinator))
          = Inr [(''e_day'', PInt 3)]"
    by (simp add: refresh_def async_update_data_def update_polled_entities_def init_def
                  rotate_last_data_def)
  with lookups_and_reset_raise_while_unset
         [where self = "init :: nat coordinator" and async_update = "\<lambda>e. None"
            and read_runtime_data = "Inr [(''e_day'', PInt 3)]" and m = "[(''e_day'', PInt 3)]"]
  have "data (fst (snd (refresh (\<lambda>e. None) (Inr [(''e_day'', PInt 3)]) (init :: nat coordinator))))
          = Some [(''e_day'', PInt 3)]" by blast
  ultimately show ?thesis using d by blast
qed

section \<open>Secondary entities\<close>

lemma update_polled_items_append:
  "update_polled_items u (xs @ ys) =
     (case update_polled_items u xs of
        (None, tr) \<Rightarrow> (case update_polled_items u ys of (r, tr') \<Rightarrow> (r, tr @ tr'))
      | (Some ex, tr) \<Rightarrow> (Some ex, tr))"
  by (induction u xs rule: update_polled_items.induct)
     (auto split: option.splits prod.splits)

text \<open>When every exception of the secondary updates is an \<^verbatim>\<open>InverterError\<close>, the loop
  runs to its end and updates every entity that has a nonzero interval, in order.\<close>

lemma update_polled_items_all_caught:
  assumes "\<forall>(e, i) \<in> set items. i \<noteq> 0 \<longrightarrow>
             (\<forall>ex. async_update e = Some ex \<longrightarrow> isinstance_InverterError ex)"
  shows "fst (update_polled_items async_update items) = None
       \<and> [e. Async_Update e \<leftarrow> snd (update_polled_items async_update items)]
           = [e. (e, i) \<leftarrow> items, i \<noteq> 0]"
  using assms
  by (induction async_update items rule: update_polled_items.induct)
     (auto split: option.splits prod.splits)

lemma async_update_data_no_abort:
  assumes "fst (update_polled_entities u self) = None"
  shows "fst (async_update_data u rd self) = fst (async_update_data (\<lambda>e. None) rd self)
       \<and> fst (snd (async_update_data u rd self)) = rotate_last_data self"
proof -
  have n: "fst (update_polled_items (\<lambda>e. None) items) = None" for items :: "('a \<times> int) list"
    by (induction items) (auto split: prod.splits)
  obtain tr where a: "update_polled_entities u self = (None, tr)"
    using assms by (cases "update_polled_entities u self") simp
  obtain tr0 where b: "update_polled_entities (\<lambda>e. None) self = (None, tr0)"
    using n [of "polled_entities self"]
    by (cases "update_polled_entities (\<lambda>e. None) self")
       (simp add: update_polled_entities_def)
  show ?thesis by (simp add: async_update_data_def a b Let_def split: prod.splits)
qed

text \<open>
  C4. When the loop of \<^verbatim>\<open>_update_polled_entities\<close> reaches an entity whose
  \<^verbatim>\<open>async_update()\<close> raises an \<^verbatim>\<open>InverterError\<close>, the error is logged and the loop goes on:
  the method ends as the loop over the later entities ends, and their updates follow
  the log line. When every exception of the cycle's secondary updates is an
  \<^verbatim>\<open>InverterError\<close>, nothing propagates, every entity with a nonzero interval is
  updated, in order, and the cycle makes the read and ends as a cycle without any
  secondary failure does.
\<close>

theorem secondary_inverter_error_is_swallowed:
  assumes "polled_entities self = earlier @ (entity, interval) # later"
    and "interval \<noteq> 0"
    and "async_update entity = Some ex" and "isinstance_InverterError ex"
    and "fst (update_polled_items async_update earlier) = None"
  shows "update_polled_entities async_update self
           = (fst (update_polled_items async_update later),
              snd (update_polled_items async_update earlier)
                @ Async_Update entity # Debug_Failed_To_Update entity
                # snd (update_polled_items async_update later))
       \<and> ((\<forall>(e, i) \<in> set (polled_entities self). i \<noteq> 0 \<longrightarrow>
              (\<forall>ex'. async_update e = Some ex' \<longrightarrow> isinstance_InverterError ex')) \<longrightarrow>
            fst (update_polled_entities async_update self) = None
          \<and> [e. Async_Update e \<leftarrow> snd (update_polled_entities async_update self)]
              = [e. (e, i) \<leftarrow> polled_entities self, i \<noteq> 0]
          \<and> fst (async_update_data async_update read_runtime_data self)
              = fst (async_update_data (\<lambda>e. None) read_runtime_data self)
          \<and> fst (snd (async_update_data async_update read_runtime_data self))
              = rotate_last_data self
          \<and> Read_Runtime_Data
              \<in> set (snd (snd (async_update_data async_update read_runtime_data self))))"
proof -
  obtain tr where e: "update_polled_items async_update earlier = (None, tr)"
    using assms(5) by (cases "update_polled_items async_update earlier") simp
  have one: "update_polled_items async_update ((entity, interval) # later)
               = (fst (update_polled_items async_update later),
                  Async_Update entity # Debug_Failed_To_Update entity
                  # snd (update_polled_items async_update later))"
    using assms(2,3,4) by (simp split: prod.splits)
  have first: "update_polled_entities async_update self
           = (fst (update_polled_items async_update later),
              snd (update_polled_items async_update earlier)
                @ Async_Update entity # Debug_Failed_To_Update entity
                # snd (update_polled_items async_update later))"
    unfolding update_polled_entities_def assms(1) update_polled_items_append e one
    by simp
  have second: "fst (update_polled_entities async_update self) = None
          \<and> [e. Async_Update e \<leftarrow> snd (update_polled_entities async_update self)]
              = [e. (e, i) \<leftarrow> polled_entities self, i \<noteq> 0]
          \<and> fst (async_update_data async_update read_runtime_data self)
              = fst (async_update_data (\<lambda>e. None) read_runtime_data self)
          \<and> fst (snd (async_update_data async_update read_runtime_data self))
              = rotate_last_data self
          \<and> Read_Runtime_Data
              \<in> set (snd (snd (async_update_data async_update read_runtime_data self)))"
    if h: "\<forall>(e, i) \<in> set (polled_entities self). i \<noteq> 0 \<longrightarrow>
              (\<forall>ex'. async_update e = Some ex' \<longrightarrow> isinstance_InverterError ex')"
  proof -
    from update_polled_items_all_caught [OF h]
    have a: "fst (update_polled_entities async_update self) = None"
      and b: "[e. Async_Update e \<leftarrow> snd (update_polled_entities async_update self)]
              = [e. (e, i) \<leftarrow> polled_entities self, i \<noteq> 0]"
      by (simp_all add: update_polled_entities_def)
    from a have "Read_Runtime_Data
              \<in> set (snd (snd (async_update_data async_update read_runtime_data self)))"
      by (simp only: read_reached_iff)
    with a b async_update_data_no_abort [OF a, of read_runtime_data] show ?thesis by simp
  qed
  from first second show ?thesis by blast
qed

theorem secondary_inverter_error_is_swallowed_witness:
  "async_update_data (\<lambda>e::nat. if e = 2 then Some (RequestFailedException 5) else None)
      (Inr [(''ppv'', PInt 500)])
      \<lparr>data = None, last_data = [], polled_entities = [(1, 30), (2, 30), (3, 60)]\<rparr>
     = (Inr [(''ppv'', PInt 500)],
        \<lparr>data = None, last_data = [], polled_entities = [(1, 30), (2, 30), (3, 60)]\<rparr>,
        [Async_Update 1, Async_Update 2, Debug_Failed_To_Update 2, Async_Update 3,
         Read_Runtime_Data])
   \<and> update_polled_entities
        (\<lambda>e::nat. if e = 2 then Some (RequestFailedException 5) else None)
        \<lparr>data = None, last_data = [], polled_entities = [(1, 30), (2, 30), (3, 60)]\<rparr>
     = (None, [Async_Update 1, Async_Update 2, Debug_Failed_To_Update 2, Async_Update 3])"
proof -
  let ?u = "\<lambda>e::nat. if e = 2 then Some (RequestFailedException 5) else None"
  let ?self = "\<lparr>data = None, last_data = [],
                 polled_entities = [(1::nat, 30), (2, 30), (3, 60)]\<rparr>"
  have 1: "polled_entities ?self = [(1, 30)] @ (2, 30) # [(3, 60)]" by simp
  have 2: "(30::int) \<noteq> 0" by simp
  have 3: "?u 2 = Some (RequestFailedException 5)" by simp
  have 4: "isinstance_InverterError (RequestFailedException 5)" by simp
  have 5: "fst (update_polled_items ?u [(1, 30)]) = None" by simp
  have 6: "\<forall>(e, i) \<in> set (polled_entities ?self). i \<noteq> 0 \<longrightarrow>
              (\<forall>ex'. ?u e = Some ex' \<longrightarrow> isinstance_InverterError ex')" by simp
  note t = secondary_inverter_error_is_swallowed
             [OF 1 2 3 4 5, where read_runtime_data = "Inr [(''ppv'', PInt 500)]"]
  from t have "update_polled_entities ?u ?self
     = (None, [Async_Update 1, Async_Update 2, Debug_Failed_To_Update 2, Async_Update 3])"
    by simp
  moreover from t 6 have "fst (async_update_data ?u (Inr [(''ppv'', PInt 500)]) ?self)
      = fst (async_update_data (\<lambda>e. None) (Inr [(''ppv'', PInt 500)]) ?self)"
    by blast
  moreover have "async_update_data ?u (Inr [(''ppv'', PInt 500)]) ?self
     = (Inr [(''ppv'', PInt 500)], ?self,
        [Async_Update 1, Async_Update 2, Debug_Failed_To_Update 2, Async_Update 3,
         Read_Runtime_Data])"
    by (simp add: async_update_data_def update_polled_entities_def rotate_last_data_def)
  ultimately show ?thesis by blast
qed

section \<open>The registry of polled entities\<close>

lemma update_polled_items_updates_registered:
  "Async_Update e \<in> set (snd (update_polled_items u items)) \<Longrightarrow> e \<in> fst ` set items"
  by (induction u items rule: update_polled_items.induct)
     (auto split: option.splits prod.splits if_splits)

lemma read_or_last_data_no_update:
  "read_or_last_data r l = (x, tr) \<Longrightarrow> Async_Update e \<notin> set tr"
  by (induction r l rule: read_or_last_data.induct) (auto split: if_splits)

lemma refresh_updates_registered:
  assumes "Async_Update e \<in> set (snd (snd (refresh u rd s)))"
  shows "e \<in> fst ` set (polled_entities s)"
proof -
  from assms have "Async_Update e \<in> set (snd (update_polled_items u (polled_entities s)))"
    by (auto simp: refresh_def async_update_data_def update_polled_entities_def Let_def
             split: prod.splits sum.splits option.splits dest: read_or_last_data_no_update)
  then show ?thesis by (rule update_polled_items_updates_registered)
qed

lemma refresh_keeps_polled_entities:
  "polled_entities (fst (snd (refresh u rd s))) = polled_entities s"
  by (auto simp: refresh_def async_update_data_def Let_def rotate_last_data_def
           split: prod.splits sum.splits option.splits)

lemma cycles_update_registered:
  "Async_Update e \<in> set (snd (snd (cycles envs s))) \<Longrightarrow> e \<in> fst ` set (polled_entities s)"
proof (induction envs arbitrary: s)
  case Nil
  then show ?case by simp
next
  case (Cons env envs)
  obtain u rd where env: "env = (u, rd)" by (cases env)
  from Cons.prems consider
      "Async_Update e \<in> set (snd (snd (refresh u rd s)))"
    | "Async_Update e \<in> set (snd (snd (cycles envs (fst (snd (refresh u rd s))))))"
    unfolding env cycles_Cons_events by auto
  then show ?case
  proof cases
    case 1
    then show ?thesis by (rule refresh_updates_registered)
  next
    case 2
    from Cons.IH [OF this] show ?thesis by (simp only: refresh_keeps_polled_entities)
  qed
qed

lemma update_update_same: "AList.update k v (AList.update k v al) = AList.update k v al"
  by (rule update_triv) (simp add: update_conv')

text \<open>
  C9. \<^verbatim>\<open>entity_state_polling(entity, interval)\<close> with a nonzero interval makes the
  registry map \<open>entity\<close> to that interval and changes no other entry; with the interval
  0 or \<^verbatim>\<open>None\<close> it removes \<open>entity\<close>, changes no other entry, and no later run of refresh
  cycles calls the entity's \<^verbatim>\<open>async_update()\<close>. Calling it twice with the same arguments
  is the same as calling it once, and the snapshots are not touched.
\<close>

theorem entity_state_polling_registry:
  "(interval \<noteq> 0 \<longrightarrow>
      map_of (polled_entities (entity_state_polling entity (Some interval) self))
        = (map_of (polled_entities self))(entity \<mapsto> interval))
   \<and> (off = None \<or> off = Some 0 \<longrightarrow>
        map_of (polled_entities (entity_state_polling entity off self))
          = (map_of (polled_entities self))(entity := None)
      \<and> entity \<notin> fst ` set (polled_entities (entity_state_polling entity off self))
      \<and> (\<forall>envs. Async_Update entity
            \<notin> set (snd (snd (cycles envs (entity_state_polling entity off self))))))
   \<and> entity_state_polling entity arg (entity_state_polling entity arg self)
        = entity_state_polling entity arg self
   \<and> data (entity_state_polling entity arg self) = data self
   \<and> last_data (entity_state_polling entity arg self) = last_data self"
proof -
  have on: "map_of (polled_entities (entity_state_polling entity (Some interval) self))
        = (map_of (polled_entities self))(entity \<mapsto> interval)" if "interval \<noteq> 0"
    using that by (simp add: update_conv')
  have off: "map_of (polled_entities (entity_state_polling entity off self))
          = (map_of (polled_entities self))(entity := None)
      \<and> entity \<notin> fst ` set (polled_entities (entity_state_polling entity off self))
      \<and> (\<forall>envs. Async_Update entity
            \<notin> set (snd (snd (cycles envs (entity_state_polling entity off self)))))"
    if "off = None \<or> off = Some 0"
  proof -
    from that have p: "polled_entities (entity_state_polling entity off self)
                         = AList.delete entity (polled_entities self)"
      by auto
    have n: "entity \<notin> fst ` set (polled_entities (entity_state_polling entity off self))"
      unfolding p by (rule delete_notin_dom)
    with cycles_update_registered [of entity _ "entity_state_polling entity off self"]
    have "\<forall>envs. Async_Update entity
            \<notin> set (snd (snd (cycles envs (entity_state_polling entity off self))))"
      by blast
    with n show ?thesis unfolding p by (simp add: delete_conv')
  qed
  have idem: "entity_state_polling entity arg (entity_state_polling entity arg self)
        = entity_state_polling entity arg self"
    by (cases arg) (simp_all add: delete_idem update_update_same)
  have frame: "data (entity_state_polling entity arg self) = data self
             \<and> last_data (entity_state_polling entity arg self) = last_data self"
    by (cases arg) simp_all
  from on off idem frame show ?thesis by blast
qed

theorem entity_state_polling_registry_witness:
  "polled_entities (entity_state_polling (2::nat) (Some 30)
       \<lparr>data = None, last_data = [], polled_entities = [(1, 10), (2, 20)]\<rparr>)
     = [(1, 10), (2, 30)]
   \<and> polled_entities (entity_state_polling (2::nat) (Some 0)
       \<lparr>data = None, last_data = [], polled_entities = [(1, 10), (2, 20)]\<rparr>)
     = [(1, 10)]
   \<and> Async_Update (2::nat) \<notin> set (snd (snd (cycles
         [(\<lambda>e. None, Inr [(''ppv'', PInt 1)]), (\<lambda>e. None, Inl InverterError)]
         (entity_state_polling (2::nat) (Some 0)
            \<lparr>data = None, last_data = [], polled_entities = [(1, 10), (2, 20)]\<rparr>))))
   \<and> map_of (polled_entities (entity_state_polling (2::nat) (Some 30)
       \<lparr>data = None, last_data = [], polled_entities = [(1, 10), (2, 20)]\<rparr>)) 2 = Some 30"
proof -
  let ?self = "\<lparr>data = None, last_data = [], polled_entities = [(1::nat, 10), (2, 20)]\<rparr>"
  note t = entity_state_polling_registry
             [where entity = "2::nat" and interval = 30 and off = "Some 0" and self = ?self]
  have a: "(30::int) \<noteq> 0" by simp
  have b: "Some (0::int) = None \<or> Some (0::int) = Some 0" by simp
  from t a have "map_of (polled_entities (entity_state_polling (2::nat) (Some 30) ?self))
                   = (map_of (polled_entities ?self))(2 \<mapsto> 30)"
    by blast
  then have "map_of (polled_entities (entity_state_polling (2::nat) (Some 30) ?self)) 2
               = Some 30"
    by simp
  moreover from t b have "\<forall>envs. Async_Update (2::nat)
      \<notin> set (snd (snd (cycles envs (entity_state_polling (2::nat) (Some 0) ?self))))"
    by blast
  moreover have "polled_entities (entity_state_polling (2::nat) (Some 30) ?self)
                   = [(1, 10), (2, 30)]"
    by simp
  moreover have "polled_entities (entity_state_polling (2::nat) (Some 0) ?self) = [(1, 10)]"
    by simp
  ultimately show ?thesis by blast
qed

section \<open>The wake-up packet and its timer\<close>

lemma wakeup_literal_bytes:
  "encode_utf8 ''WIFIKIT-214028-READ''
     = [0x57, 0x49, 0x46, 0x49, 0x4B, 0x49, 0x54, 0x2D, 0x32, 0x31, 0x34, 0x30, 0x32, 0x38,
        0x2D, 0x52, 0x45, 0x41, 0x44]"
  by (simp add: encode_utf8_def)

text \<open>
  C6, amended. However \<^verbatim>\<open>command.execute\<close> ends, \<^verbatim>\<open>_send_wakeup_packet\<close> makes exactly one
  call of it: the 19 bytes of \<^verbatim>\<open>WIFIKIT-214028-READ\<close>, to port 48899 of the coordinator's
  host, with communication address 1 and a timeout of 1 second. The call passes no retry
  count, so the retry count of the request is the default of the protocol's declaration,
  whatever that is. When the execution raises \<^verbatim>\<open>asyncio.CancelledError\<close>, the method logs a
  line and returns normally.
\<close>

theorem send_wakeup_packet_request:
  "[ev \<leftarrow> snd (send_wakeup_packet outcome self). is_Execute ev]
     = [Execute \<lparr>payload = [0x57, 0x49, 0x46, 0x49, 0x4B, 0x49, 0x54, 0x2D, 0x32, 0x31, 0x34,
                             0x30, 0x32, 0x38, 0x2D, 0x52, 0x45, 0x41, 0x44],
                  protocol_host = host self, port = 48899, comm_addr = 1, timeout = 1,
                  retries = None\<rparr>]
   \<and> map (effective_retries default_retries)
        [rq. Execute rq \<leftarrow> snd (send_wakeup_packet outcome self)] = [default_retries]
   \<and> send_wakeup_packet (Raised CancelledError) self
       = (Inr (),
          [Debug_Sending,
           Execute \<lparr>payload = encode_utf8 ''WIFIKIT-214028-READ'',
                    protocol_host = host self, port = 48899, comm_addr = 1, timeout = 1,
                    retries = None\<rparr>,
           Debug_No_Valid_Response])"
proof -
  have "[ev \<leftarrow> snd (send_wakeup_packet outcome self). is_Execute ev]
     = [Execute \<lparr>payload = [0x57, 0x49, 0x46, 0x49, 0x4B, 0x49, 0x54, 0x2D, 0x32, 0x31, 0x34,
                             0x30, 0x32, 0x38, 0x2D, 0x52, 0x45, 0x41, 0x44],
                  protocol_host = host self, port = 48899, comm_addr = 1, timeout = 1,
                  retries = None\<rparr>]"
    by (simp add: send_wakeup_packet_def Let_def wakeup_literal_bytes
             split: execute_outcome.splits option.splits)
  moreover have "map (effective_retries default_retries)
        [rq. Execute rq \<leftarrow> snd (send_wakeup_packet outcome self)] = [default_retries]"
    by (simp add: send_wakeup_packet_def Let_def effective_retries_def
             split: execute_outcome.splits option.splits)
  moreover have "send_wakeup_packet (Raised CancelledError) self
       = (Inr (),
          [Debug_Sending,
           Execute \<lparr>payload = encode_utf8 ''WIFIKIT-214028-READ'',
                    protocol_host = host self, port = 48899, comm_addr = 1, timeout = 1,
                    retries = None\<rparr>,
           Debug_No_Valid_Response])"
    by (simp add: send_wakeup_packet_def Let_def)
  ultimately show ?thesis by blast
qed

theorem send_wakeup_packet_request_witness:
  "send_wakeup_packet (Raised CancelledError)
      \<lparr>data = None, last_data = [], polled_entities = [] :: (nat \<times> int) list,
       host = ''192.168.1.14'', cancel_wakeup_interval = Some 0\<rparr>
     = (Inr (),
        [Debug_Sending,
         Execute \<lparr>payload = [0x57, 0x49, 0x46, 0x49, 0x4B, 0x49, 0x54, 0x2D, 0x32, 0x31, 0x34,
                             0x30, 0x32, 0x38, 0x2D, 0x52, 0x45, 0x41, 0x44],
                  protocol_host = ''192.168.1.14'', port = 48899, comm_addr = 1,
                  timeout = 1, retries = None\<rparr>,
         Debug_No_Valid_Response])"
  using send_wakeup_packet_request
    [where outcome = "Raised CancelledError"
       and self = "\<lparr>data = None, last_data = [], polled_entities = [] :: (nat \<times> int) list,
                     host = ''192.168.1.14'', cancel_wakeup_interval = Some 0\<rparr>"]
  by (simp add: wakeup_literal_bytes)

text \<open>
  C6 as stated, with its single attempt, fails with the default of the goodwe library,
  \<^verbatim>\<open>retries: int = 3\<close>: the one request that a wake-up send executes has the retry count
  3, not 0, so it is sent up to four times while the inverter does not answer.
\<close>

theorem send_wakeup_packet_retries_counterexample:
  "map (effective_retries 3)
     [rq. Execute rq \<leftarrow> snd (send_wakeup_packet (Returned None)
        \<lparr>data = None, last_data = [], polled_entities = [] :: (nat \<times> int) list,
         host = ''192.168.1.14'', cancel_wakeup_interval = Some 0\<rparr>)] = [3]
   \<and> map (effective_retries 3)
     [rq. Execute rq \<leftarrow> snd (send_wakeup_packet (Returned None)
        \<lparr>data = None, last_data = [], polled_entities = [] :: (nat \<times> int) list,
         host = ''192.168.1.14'', cancel_wakeup_interval = Some 0\<rparr>)] \<noteq> [0]"
  by (simp add: send_wakeup_packet_def effective_retries_def)

lemma step_no_execute_when_stopped:
  assumes "timers s = []" and "\<not> listener s" and "cancel_wakeup_interval (coord s) = None"
  shows "timers (fst (step ev s)) = [] \<and> \<not> listener (fst (step ev s))
       \<and> cancel_wakeup_interval (coord (fst (step ev s))) = None
       \<and> filter is_Execute (snd (step ev s)) = []"
  using assms by (cases ev) (simp_all add: async_shutdown_def)

lemma run_Cons_state: "fst (run (ev # evs) s) = fst (run evs (fst (step ev s)))"
  by (simp split: prod.splits)

lemma run_Cons_events:
  "snd (run (ev # evs) s) = snd (step ev s) @ snd (run evs (fst (step ev s)))"
  by (simp split: prod.splits)

lemma run_no_execute_when_stopped:
  "timers s = [] \<Longrightarrow> \<not> listener s \<Longrightarrow> cancel_wakeup_interval (coord s) = None
     \<Longrightarrow> filter is_Execute (snd (run evs s)) = []"
proof (induction evs arbitrary: s)
  case Nil
  then show ?case by simp
next
  case (Cons ev evs)
  from step_no_execute_when_stopped [OF Cons.prems, of ev] Cons.IH [of "fst (step ev s)"]
  show ?case unfolding run_Cons_events by simp
qed

lemma run_append_state: "fst (run (xs @ ys) s) = fst (run ys (fst (run xs s)))"
  by (induction xs arbitrary: s) (simp_all add: run_Cons_state del: run.simps(2))

text \<open>Every timer that runs is the one the coordinator holds the cancel callback of, and
  the coordinator holds none while the one-time listener is still registered.\<close>

lemma step_keeps_timers_held:
  assumes "set (timers s) \<subseteq> set_option (cancel_wakeup_interval (coord s))"
    and "listener s \<longrightarrow> cancel_wakeup_interval (coord s) = None"
  shows "set (timers (fst (step ev s)))
           \<subseteq> set_option (cancel_wakeup_interval (coord (fst (step ev s))))
       \<and> (listener (fst (step ev s)) \<longrightarrow> cancel_wakeup_interval (coord (fst (step ev s))) = None)
       \<and> (\<not> listener s \<longrightarrow> \<not> listener (fst (step ev s)))
       \<and> (ev = Homeassistant_Started \<longrightarrow> \<not> listener (fst (step ev s)))"
  using assms
  by (cases ev)
     (auto simp: start_wakeup_interval_def async_shutdown_def split: option.splits)

lemma run_keeps_timers_held:
  assumes "set (timers s) \<subseteq> set_option (cancel_wakeup_interval (coord s))"
    and "listener s \<longrightarrow> cancel_wakeup_interval (coord s) = None"
  shows "set (timers (fst (run evs s)))
           \<subseteq> set_option (cancel_wakeup_interval (coord (fst (run evs s))))
       \<and> (listener (fst (run evs s)) \<longrightarrow> cancel_wakeup_interval (coord (fst (run evs s))) = None)
       \<and> (\<not> listener s \<or> Homeassistant_Started \<in> set evs \<longrightarrow> \<not> listener (fst (run evs s)))"
  using assms
proof (induction evs arbitrary: s)
  case Nil
  then show ?case by simp
next
  case (Cons ev evs)
  note st = step_keeps_timers_held [OF Cons.prems, of ev]
  from st have a: "set (timers (fst (step ev s)))
           \<subseteq> set_option (cancel_wakeup_interval (coord (fst (step ev s))))"
    and b: "listener (fst (step ev s)) \<longrightarrow> cancel_wakeup_interval (coord (fst (step ev s))) = None"
    by blast+
  from Cons.IH [OF a b] st show ?case unfolding run_Cons_state by auto
qed

lemma shutdown_stops:
  assumes "set (timers s) \<subseteq> set_option (cancel_wakeup_interval (coord s))"
  shows "timers (fst (step Shutdown s)) = []
       \<and> cancel_wakeup_interval (coord (fst (step Shutdown s))) = None
       \<and> listener (fst (step Shutdown s)) = listener s"
  using assms
  by (cases "cancel_wakeup_interval (coord s)")
     (auto simp: async_shutdown_def filter_empty_conv)

lemma step_never_runs_base_shutdown: "Base_Shutdown_Ran \<notin> set (snd (step ev s))"
  by (cases ev)
     (auto simp: start_wakeup_interval_def send_wakeup_packet_def async_shutdown_def Let_def
           split: option.splits execute_outcome.splits)

lemma run_never_runs_base_shutdown: "Base_Shutdown_Ran \<notin> set (snd (run evs s))"
proof (induction evs arbitrary: s)
  case Nil
  then show ?case by simp
next
  case (Cons ev evs)
  from step_never_runs_base_shutdown [of ev s] Cons.IH [of "fst (step ev s)"]
  show ?case unfolding run_Cons_events by simp
qed

text \<open>
  C7, as the code does it. \<^verbatim>\<open>async_shutdown\<close> on a coordinator that holds a cancel callback
  calls it and forgets it; on a coordinator that holds none it cancels nothing and
  changes nothing. After the shutdown of an armed sender no timer runs and no later event
  executes a wake-up request; the same holds in every run from a new coordinator in which
  the started event comes before the shutdown. The delegation is only begun:
  \<^verbatim>\<open>super().async_shutdown()\<close> is called after the release, but its coroutine object is
  returned without being awaited, so the base shutdown runs in no run of the system,
  while awaiting the object would run it.
\<close>

theorem shutdown_cancels_wakeup_timer:
  "(cancel_wakeup_interval self = Some handle \<longrightarrow>
      async_shutdown self
        = (self\<lparr>cancel_wakeup_interval := None\<rparr>,
           [Cancel_Interval handle, Super_Async_Shutdown], Base_Async_Shutdown_Coroutine))
   \<and> (cancel_wakeup_interval self = None \<longrightarrow>
        async_shutdown self = (self, [Super_Async_Shutdown], Base_Async_Shutdown_Coroutine))
   \<and> (cancel_wakeup_interval (coord s) = Some handle \<and> set (timers s) \<subseteq> {handle}
        \<and> \<not> listener s \<longrightarrow>
          timers (fst (step Shutdown s)) = []
        \<and> cancel_wakeup_interval (coord (fst (step Shutdown s))) = None
        \<and> (\<forall>evs. filter is_Execute (snd (run evs (fst (step Shutdown s)))) = []))
   \<and> (Homeassistant_Started \<in> set before \<longrightarrow>
        filter is_Execute
          (snd (run later (fst (run (before @ [Shutdown]) (system_init h :: 'e system))))) = [])
   \<and> Base_Shutdown_Ran \<notin> set (fst (snd (async_shutdown self)))
   \<and> Base_Shutdown_Ran \<notin> set (snd (run evs' s))
   \<and> snd (await_coroutine (snd (snd (async_shutdown self))) outcome self) = [Base_Shutdown_Ran]"
proof -
  have armed: "timers (fst (step Shutdown s)) = []
        \<and> cancel_wakeup_interval (coord (fst (step Shutdown s))) = None
        \<and> (\<forall>evs. filter is_Execute (snd (run evs (fst (step Shutdown s)))) = [])"
    if "cancel_wakeup_interval (coord s) = Some handle" "set (timers s) \<subseteq> {handle}"
       "\<not> listener s"
  proof -
    from that have "set (timers s) \<subseteq> set_option (cancel_wakeup_interval (coord s))" by simp
    from shutdown_stops [OF this] that(3)
    show ?thesis by (simp add: run_no_execute_when_stopped)
  qed
  have reach: "filter is_Execute
          (snd (run later (fst (run (before @ [Shutdown]) (system_init h :: 'e system))))) = []"
    if "Homeassistant_Started \<in> set before"
  proof -
    let ?s = "fst (run before (system_init h :: 'e system))"
    have i: "set (timers (system_init h :: 'e system))
               \<subseteq> set_option (cancel_wakeup_interval (coord (system_init h :: 'e system)))"
      and j: "listener (system_init h :: 'e system)
                \<longrightarrow> cancel_wakeup_interval (coord (system_init h :: 'e system)) = None"
      by (simp_all add: system_init_def)
    from run_keeps_timers_held [OF i j, of before] that
    have k: "set (timers ?s) \<subseteq> set_option (cancel_wakeup_interval (coord ?s))"
      and l: "\<not> listener ?s"
      by blast+
    from shutdown_stops [OF k] l
    have "filter is_Execute (snd (run later (fst (step Shutdown ?s)))) = []"
      by (simp add: run_no_execute_when_stopped)
    then show ?thesis by (simp add: run_append_state run_Cons_state del: run.simps(2))
  qed
  have base: "Base_Shutdown_Ran \<notin> set (fst (snd (async_shutdown self)))
     \<and> snd (await_coroutine (snd (snd (async_shutdown self))) outcome self) = [Base_Shutdown_Ran]"
    by (simp add: async_shutdown_def split: option.splits)
  from armed reach base run_never_runs_base_shutdown [of evs' s]
  show ?thesis by (auto simp: async_shutdown_def)
qed

theorem shutdown_cancels_wakeup_timer_witness:
  "fst (step Homeassistant_Started (system_init ''10.0.0.7'' :: nat system))
     = \<lparr>coord = \<lparr>data = None, last_data = [], polled_entities = [],
                  host = ''10.0.0.7'', cancel_wakeup_interval = Some 0\<rparr>,
        listener = False, timers = [0], next_timer = 1\<rparr>
   \<and> filter is_Execute (snd (run [Time_Interval_Elapsed 0 (Returned None)]
        (fst (step Homeassistant_Started (system_init ''10.0.0.7'' :: nat system))))) \<noteq> []
   \<and> step Shutdown (fst (step Homeassistant_Started (system_init ''10.0.0.7'' :: nat system)))
     = (\<lparr>coord = \<lparr>data = None, last_data = [], polled_entities = [],
                   host = ''10.0.0.7'', cancel_wakeup_interval = None\<rparr>,
         listener = False, timers = [], next_timer = 1\<rparr>,
        [Cancel_Interval 0, Super_Async_Shutdown])
   \<and> filter is_Execute (snd (run [Time_Interval_Elapsed 0 (Returned None), Homeassistant_Started]
        (fst (step Shutdown
           (fst (step Homeassistant_Started (system_init ''10.0.0.7'' :: nat system))))))) = []"
proof -
  let ?s = "fst (step Homeassistant_Started (system_init ''10.0.0.7'' :: nat system))"
  have s: "?s = \<lparr>coord = \<lparr>data = None, last_data = [], polled_entities = [],
                  host = ''10.0.0.7'', cancel_wakeup_interval = Some 0\<rparr>,
        listener = False, timers = [0], next_timer = 1\<rparr>"
    by (simp add: system_init_def start_wakeup_interval_def)
  have h: "cancel_wakeup_interval (coord ?s) = Some 0 \<and> set (timers ?s) \<subseteq> {0}
             \<and> \<not> listener ?s"
    unfolding s by simp
  from shutdown_cancels_wakeup_timer [where s = ?s and handle = 0] h
  have "\<forall>evs. filter is_Execute (snd (run evs (fst (step Shutdown ?s)))) = []"
    by blast
  then have a: "filter is_Execute
      (snd (run [Time_Interval_Elapsed 0 (Returned None), Homeassistant_Started]
         (fst (step Shutdown ?s)))) = []"
    by blast
  have b: "filter is_Execute (snd (run [Time_Interval_Elapsed 0 (Returned None)] ?s)) \<noteq> []"
    unfolding s by (simp add: send_wakeup_packet_def)
  have c: "step Shutdown ?s
     = (\<lparr>coord = \<lparr>data = None, last_data = [], polled_entities = [],
                   host = ''10.0.0.7'', cancel_wakeup_interval = None\<rparr>,
         listener = False, timers = [], next_timer = 1\<rparr>,
        [Cancel_Interval 0, Super_Async_Shutdown])"
    unfolding s by (simp add: async_shutdown_def)
  from s a b c show ?thesis by blast
qed

text \<open>
  C5, as the code does it. \<^verbatim>\<open>_start_wakeup_interval\<close> registers the repeating timer of 10
  minutes and keeps its cancel callback; its last statement makes a coroutine object of
  \<^verbatim>\<open>_send_wakeup_packet\<close> and drops it, so arming executes no wake-up request. A second
  started event does nothing, and the first request is executed when the timer fires.
\<close>

theorem start_wakeup_interval_sends_nothing:
  "start_wakeup_interval handle self
     = (self\<lparr>cancel_wakeup_interval := Some handle\<rparr>,
        [Track_Time_Interval 10 ''goodwe_inverter_send_wakeup_packet''],
        [Send_Wakeup_Packet_Coroutine])
   \<and> filter is_Execute (fst (snd (start_wakeup_interval handle self))) = []
   \<and> snd (step Homeassistant_Started (system_init h :: 'e system))
       = [Track_Time_Interval 10 ''goodwe_inverter_send_wakeup_packet'']
   \<and> snd (run [Homeassistant_Started, Homeassistant_Started] (system_init h :: 'e system))
       = [Track_Time_Interval 10 ''goodwe_inverter_send_wakeup_packet'']
   \<and> filter is_Execute
        (snd (run [Homeassistant_Started, Time_Interval_Elapsed 0 outcome]
                (system_init h :: 'e system)))
       = [Execute \<lparr>payload = encode_utf8 ''WIFIKIT-214028-READ'', protocol_host = h,
                    port = 48899, comm_addr = 1, timeout = 1, retries = None\<rparr>]"
  by (simp add: start_wakeup_interval_def system_init_def send_wakeup_packet_def Let_def
           split: execute_outcome.splits option.splits)

end
